theory Spec2Isabelle
  imports Complex_Main
begin

section \<open>Data model (types.ts)\<close>

text \<open>
  A JavaScript \<open>number\<close> is modelled as a \<open>real\<close> (idealised arithmetic: no rounding, no
  NaN, no infinities, no signed zero); an optional field \<open>f?: T\<close> as \<open>T option\<close>, with
  \<open>None\<close> for \<open>undefined\<close>. The one place where rounding changes what the code returns, the
  distance, is marked at its definition. The three interfaces that carry an \<open>id\<close> and a \<open>name\<close> get a
  prefix on these two fields, since record fields share one name space.
\<close>

record Coordinates =
  latitude :: real
  longitude :: real
  accuracy :: "real option"

datatype ScheduleType = NONE | FIXED_TIME | INTERVAL

record ScheduleConfig =
  type :: ScheduleType
  fixedTimes :: "string list option"
  intervalMinutes :: "real option"
  toleranceMinutes :: "real option"

record Checkpoint =
  cp_id :: string
  cp_name :: string
  location :: Coordinates
  allowedRadiusMeters :: real
  schedule :: "ScheduleConfig option"

datatype ScanStatus = VALID | INVALID_LOCATION | INVALID_TIME | LATE | ISSUE_REPORTED

record ScanLog =
  log_id :: string
  checkpointId :: string
  checkpointName :: string
  officerId :: string
  timestamp :: int
  status :: ScanStatus
  log_note :: "string option"
  userLocation :: "Coordinates option"
  distanceFromTarget :: "real option"
  evidencePhotoUrl :: "string option"

datatype Role = ADMIN | OFFICER

record User =
  user_id :: string
  user_name :: string
  role :: Role

section \<open>JavaScript primitives used by the scanner\<close>

text \<open>
  \<open>v || d\<close> for an optional number \<open>v\<close>: \<open>undefined\<close> and \<open>0\<close> are falsy, so both give
  \<open>d\<close> (NaN, also falsy, is not a real).
\<close>

definition orElse :: "real option \<Rightarrow> real \<Rightarrow> real" where
  "orElse v d = (case v of None \<Rightarrow> d | Some x \<Rightarrow> if x = 0 then d else x)"

text \<open>\<open>Array.prototype.some\<close>, \<open>Array.prototype.find\<close> and \<open>Array.prototype.join\<close>.\<close>

primrec some :: "('a \<Rightarrow> bool) \<Rightarrow> 'a list \<Rightarrow> bool" where
  "some p [] = False"
| "some p (x # xs) = (p x \<or> some p xs)"

primrec find_js :: "('a \<Rightarrow> bool) \<Rightarrow> 'a list \<Rightarrow> 'a option" where
  "find_js p [] = None"
| "find_js p (x # xs) = (if p x then Some x else find_js p xs)"

fun join :: "string \<Rightarrow> string list \<Rightarrow> string" where
  "join sep [] = []"
| "join sep [x] = x"
| "join sep (x # y # ys) = x @ sep @ join sep (y # ys)"

text \<open>
  \<open>s.split(c)\<close> for a one-character separator: the pieces between the separators, one
  piece (the empty string) for the empty string.
\<close>

fun split :: "char \<Rightarrow> string \<Rightarrow> string list" where
  "split c [] = [[]]"
| "split c (x # xs) =
     (if x = c then [] # split c xs
      else (case split c xs of [] \<Rightarrow> [[x]] | w # ws \<Rightarrow> (x # w) # ws))"

text \<open>
  \<open>Number(s)\<close> for a string, with \<open>None\<close> for NaN. The model reads the strings an
  \<open>HH:mm\<close> field can hold: a run of decimal digits is its value, and the empty string is
  0. JavaScript also reads a sign, a fraction, an exponent, a radix prefix and
  surrounding white space; the model answers NaN on these, and the statements about
  scheduled times below are about digit fields only.
\<close>

definition digitVal :: "char \<Rightarrow> nat option" where
  "digitVal c =
     (if of_char c \<ge> (48::nat) \<and> of_char c \<le> (57::nat) then Some (of_char c - 48) else None)"

fun digitsValue :: "nat \<Rightarrow> string \<Rightarrow> nat option" where
  "digitsValue acc [] = Some acc"
| "digitsValue acc (c # cs) =
     (case digitVal c of None \<Rightarrow> None | Some d \<Rightarrow> digitsValue (10 * acc + d) cs)"

definition Number :: "string \<Rightarrow> int option" where
  "Number s = map_option int (digitsValue 0 s)"

text \<open>\<open>Math.round(x)\<close>: the nearest integer, a tie going up.\<close>

definition Math_round :: "real \<Rightarrow> real" where
  "Math_round x = of_int \<lfloor>x + 1 / 2\<rfloor>"

section \<open>Geospatial distance (utils.ts)\<close>

text \<open>
  \<open>Math.atan2(y, x)\<close> on reals: the angle of the point \<open>(x, y)\<close> in \<open>(-\<pi>, \<pi>]\<close>, and 0 at
  the origin.
\<close>

definition Math_atan2 :: "real \<Rightarrow> real \<Rightarrow> real" where
  "Math_atan2 y x =
     (if 0 < x then arctan (y / x)
      else if x < 0 then (if 0 \<le> y then arctan (y / x) + pi else arctan (y / x) - pi)
      else if 0 < y then pi / 2
      else if y < 0 then - (pi / 2)
      else 0)"

text \<open>
  The haversine term \<open>a\<close> of \<open>calculateDistance\<close> (lines 9 to 19) and the function itself,
  in exact arithmetic. The code evaluates the same expressions in IEEE doubles and does not
  clamp \<open>a\<close>: for some valid coordinates on opposite sides of the Earth the rounded \<open>a\<close> is
  \<open>1.0000000000000002\<close>, so \<open>Math.sqrt(1 - a)\<close> and the result are NaN, which these
  definitions do not show. Nothing is therefore stated here about the distance as a
  function of two arbitrary coordinates. The statements about the scanner take the distance as the
  handler computes it and use no property of it; the worked examples evaluate it at two
  places only, at the checkpoint itself (0 in doubles as well) and half the way round the
  equator.
\<close>

definition haversine_a :: "Coordinates \<Rightarrow> Coordinates \<Rightarrow> real" where
  "haversine_a coords1 coords2 =
     (let lat1 = (latitude coords1 * pi) / 180;
          lat2 = (latitude coords2 * pi) / 180;
          deltaLat = ((latitude coords2 - latitude coords1) * pi) / 180;
          deltaLon = ((longitude coords2 - longitude coords1) * pi) / 180
      in sin (deltaLat / 2) * sin (deltaLat / 2) +
         cos lat1 * cos lat2 * sin (deltaLon / 2) * sin (deltaLon / 2))"

definition calculateDistance :: "Coordinates \<Rightarrow> Coordinates \<Rightarrow> real" where
  "calculateDistance coords1 coords2 =
     (let R = 6371000;
          a = haversine_a coords1 coords2;
          c = 2 * Math_atan2 (sqrt a) (sqrt (1 - a))
      in R * c)"

section \<open>The time check of the scanner (Scanner.handleSimulatedScan, lines 731 to 751)\<close>

text \<open>\<open>new Date()\<close>, read through \<open>getHours()\<close> and \<open>getMinutes()\<close>.\<close>

record Date =
  getHours :: int
  getMinutes :: int

datatype TimeStatus = Time_VALID | Time_INVALID_TIME

text \<open>
  The callback of \<open>fixedTimes.some\<close>: \<open>[h, m] = timeStr.split(':').map(Number)\<close>, then
  \<open>h * 60 + m\<close>. A missing piece is \<open>undefined\<close> and makes the sum NaN (\<open>None\<close>), and a
  comparison with NaN is false.
\<close>

definition targetMinutes :: "string \<Rightarrow> int option" where
  "targetMinutes timeStr =
     (case map Number (split (CHR '':'') timeStr) of
        Some h # Some m # _ \<Rightarrow> Some (h * 60 + m)
      | _ \<Rightarrow> None)"

definition withinTolerance :: "int \<Rightarrow> real \<Rightarrow> string \<Rightarrow> bool" where
  "withinTolerance currentMinutes tolerance timeStr =
     (case targetMinutes timeStr of
        None \<Rightarrow> False
      | Some t \<Rightarrow> real_of_int \<bar>currentMinutes - t\<bar> \<le> tolerance)"

text \<open>
  The time check: the status and the note it leaves. \<open>numText\<close> stands for the text of a
  number in a template literal, which the model leaves open.
\<close>

definition timeCheck ::
  "(real \<Rightarrow> string) \<Rightarrow> ScheduleConfig option \<Rightarrow> Date \<Rightarrow> TimeStatus \<times> string" where
  "timeCheck numText sched now =
     (case sched of
        None \<Rightarrow> (Time_VALID, [])
      | Some sc \<Rightarrow>
          if type sc = FIXED_TIME then
            (case fixedTimes sc of
               None \<Rightarrow> (Time_VALID, [])
             | Some fts \<Rightarrow>
                 (let currentMinutes = getHours now * 60 + getMinutes now;
                      tolerance = orElse (toleranceMinutes sc) 10;
                      isValidTime = some (withinTolerance currentMinutes tolerance) fts
                  in if \<not> isValidTime
                     then (Time_INVALID_TIME,
                           ''Wrong Time. Schedule: '' @ join '', '' fts @ '' (+/- '' @
                           numText tolerance @ ''m)'')
                     else (Time_VALID, [])))
          else (Time_VALID, []))"

section \<open>The scanner (components/Scanner.tsx)\<close>

text \<open>
  What the race of \<open>getCurrentPosition()\<close> against the ten-second timer settles to: a
  reading, or a rejection. A rejection by an \<open>Error\<close> carries its message (the timer's is
  "GPS timed out. Move to open sky."); a rejection by anything else carries none.
\<close>

datatype Position = Resolved Coordinates | Rejected "string option"

text \<open>
  What one run of \<open>handleSimulatedScan\<close> reads from outside: the settled position, the
  clock (\<open>new Date()\<close> in the time check, \<open>Date.now()\<close> for the id and again for the
  timestamp) and \<open>mountedRef.current\<close> once the position has settled.
\<close>

record Env =
  position :: Position
  newDate :: Date
  dateNowId :: int
  dateNowTimestamp :: int
  mounted :: bool

text \<open>The state of the component that the two handlers read and write.\<close>

record Scanner =
  processing :: bool
  gpsLoading :: bool
  hasAutoScanned :: bool
  pendingLog :: "ScanLog option"
  noteText :: string
  hasPhoto :: bool
  selectedOfficerId :: string
  currentAccuracy :: "real option"

text \<open>
  How a run ends: a draft record is set as the pending log, or an alert is shown, or the
  component is gone and the run returns in silence.
\<close>

datatype ScanOutcome = Draft ScanLog | Alert string | Unmounted

text \<open>The priority chain of lines 753 to 766: the status and the note.\<close>

definition decideStatus ::
  "(real \<Rightarrow> string) \<Rightarrow> TimeStatus \<Rightarrow> string \<Rightarrow> bool \<Rightarrow> bool \<Rightarrow> real \<Rightarrow> real
     \<Rightarrow> ScanStatus \<times> string" where
  "decideStatus numText timeStatus timeNote isGpsPoor isNearby acc distance =
     (if timeStatus = Time_INVALID_TIME then (INVALID_TIME, timeNote)
      else if isGpsPoor then
        (VALID, ''Weak GPS (Acc: '' @ numText (Math_round acc) @ ''m). Verified by QR.'')
      else if \<not> isNearby then
        (INVALID_LOCATION, ''Location Mismatch. Dist: '' @ numText (Math_round distance) @ ''m'')
      else (VALID, ''Routine Check: OK''))"

text \<open>The \<open>catch\<close> block of lines 789 to 796.\<close>

definition scanFailed :: "Env \<Rightarrow> Scanner \<Rightarrow> string \<Rightarrow> ScanOutcome \<times> Scanner" where
  "scanFailed env s errMessage =
     (if \<not> mounted env then (Unmounted, s)
      else (Alert (''Error: '' @ errMessage),
            s\<lparr>processing := False, gpsLoading := False, hasAutoScanned := True\<rparr>))"

definition handleSimulatedScan ::
  "(real \<Rightarrow> string) \<Rightarrow> Checkpoint list \<Rightarrow> string \<Rightarrow> Env \<Rightarrow> Scanner
     \<Rightarrow> ScanOutcome \<times> Scanner" where
  "handleSimulatedScan numText cps cid env s0 =
     (let s = s0\<lparr>processing := True, gpsLoading := True\<rparr> in
      case find_js (\<lambda>c. cp_id c = cid) cps of
        None \<Rightarrow> scanFailed env s ''Unknown QR Code. Checkpoint ID not found in system.''
      | Some targetCheckpoint \<Rightarrow>
          (case position env of
             Rejected e \<Rightarrow>
               scanFailed env s
                 (case e of Some m \<Rightarrow> m | None \<Rightarrow> ''Location verification failed.'')
           | Resolved currentLocation \<Rightarrow>
               (let acc = orElse (accuracy currentLocation) 0;
                    s1 = (case accuracy currentLocation of
                            None \<Rightarrow> s
                          | Some a \<Rightarrow> if a = 0 then s else s\<lparr>currentAccuracy := Some a\<rparr>);
                    distance = calculateDistance currentLocation (location targetCheckpoint);
                    isNearby = (distance \<le> allowedRadiusMeters targetCheckpoint);
                    isGpsPoor = (acc > 100);
                    (timeStatus, timeNote) =
                      timeCheck numText (schedule targetCheckpoint) (newDate env);
                    (st, autoNote) =
                      decideStatus numText timeStatus timeNote isGpsPoor isNearby acc distance
                in if \<not> mounted env then (Unmounted, s1)
                   else
                     (let draftLog =
                            \<lparr>log_id = numText (of_int (dateNowId env)),
                             checkpointId = cp_id targetCheckpoint,
                             checkpointName = cp_name targetCheckpoint,
                             officerId = [],
                             timestamp = dateNowTimestamp env,
                             status = st,
                             log_note = Some autoNote,
                             userLocation = Some currentLocation,
                             distanceFromTarget = Some distance,
                             evidencePhotoUrl = None\<rparr>
                      in (Draft draftLog,
                          s1\<lparr>gpsLoading := False, processing := False,
                             pendingLog := Some draftLog, noteText := autoNote,
                             hasPhoto := False, selectedOfficerId := []\<rparr>)))))"

text \<open>
  \<open>handleFinalSubmit\<close> (lines 799 to 817). \<open>onScanComplete\<close> is the callback the parent
  passes in; \<open>app\<close> is the parent's state, which only the callback touches. The first
  component is the alert, if one is shown.
\<close>

definition handleFinalSubmit ::
  "(ScanLog \<Rightarrow> 'a \<Rightarrow> 'a) \<Rightarrow> User list \<Rightarrow> Scanner \<Rightarrow> 'a \<Rightarrow> string option \<times> 'a" where
  "handleFinalSubmit onScanComplete offs s app =
     (case pendingLog s of
        None \<Rightarrow> (None, app)
      | Some p \<Rightarrow>
          if selectedOfficerId s = [] then
            (Some ''Please select your name/ID from the list.'', app)
          else
            (let officer = find_js (\<lambda>u. user_id u = selectedOfficerId s) offs;
                 officerDisplayName =
                   (case officer of
                      Some u \<Rightarrow> user_name u @ '' ('' @ user_id u @ '')''
                    | None \<Rightarrow> selectedOfficerId s);
                 finalLog =
                   p\<lparr>officerId := officerDisplayName,
                     log_note := Some (noteText s),
                     evidencePhotoUrl :=
                       (if hasPhoto s then Some ''mock_photo_url.jpg'' else None)\<rparr>
             in (None, onScanComplete finalLog app)))"

section \<open>The application state (App.tsx)\<close>

datatype View = dashboard | scanner | admin_setup

record App =
  currentView :: View
  logs :: "ScanLog list"
  initialScanId :: "string option"
  isSyncing :: bool
  lastSyncTime :: "int option"
  checkpoints :: "Checkpoint list"
  officers :: "User list"

text \<open>
  \<open>handleScanComplete\<close> (lines 126 to 138): the record is appended to the logs at once.
  The push \<open>saveLogToSheet\<close> is not awaited and changes no local state; the pull it
  schedules two seconds later is a run of \<open>loadCloudData\<close> of its own.
\<close>

definition handleScanComplete :: "ScanLog \<Rightarrow> App \<Rightarrow> App" where
  "handleScanComplete newLog app =
     app\<lparr>logs := logs app @ [newLog], initialScanId := None, currentView := dashboard\<rparr>"

text \<open>What \<open>fetchAllDataFromSheet\<close> resolves to.\<close>

record CloudData =
  cloud_logs :: "ScanLog list"
  cloud_officers :: "User list"
  cloud_checkpoints :: "Checkpoint list"

text \<open>
  \<open>loadCloudData\<close> (lines 73 to 102). \<open>scriptUrl\<close> is \<open>getScriptUrl()\<close>, \<open>fetched\<close> is
  what the fetch settles to (\<open>None\<close> when it rejects, which the \<open>catch\<close> logs) and
  \<open>syncDate\<close> is the \<open>new Date()\<close> of line 96.
\<close>

definition loadCloudData :: "string \<Rightarrow> CloudData option \<Rightarrow> int \<Rightarrow> App \<Rightarrow> App" where
  "loadCloudData scriptUrl fetched syncDate app0 =
     (if scriptUrl = [] then app0
      else
        (let app = app0\<lparr>isSyncing := True\<rparr> in
         case fetched of
           None \<Rightarrow> app\<lparr>isSyncing := False\<rparr>
         | Some cloudData \<Rightarrow>
             (let app1 = (if length (cloud_logs cloudData) > 0
                          then app\<lparr>logs := cloud_logs cloudData\<rparr> else app);
                  app2 = (if length (cloud_officers cloudData) > 0
                          then app1\<lparr>officers := cloud_officers cloudData\<rparr> else app1);
                  app3 = (if length (cloud_checkpoints cloudData) > 0
                          then app2\<lparr>checkpoints := cloud_checkpoints cloudData\<rparr> else app2)
              in app3\<lparr>lastSyncTime := Some syncDate, isSyncing := False\<rparr>)))"

section \<open>Reading the outcome, and the inputs of the worked examples\<close>

text \<open>The draft record a run emits, if it emits one.\<close>

definition emittedDraft :: "ScanOutcome \<times> Scanner \<Rightarrow> ScanLog option" where
  "emittedDraft r = (case fst r of Draft d \<Rightarrow> Some d | Alert _ \<Rightarrow> None | Unmounted \<Rightarrow> None)"

text \<open>The status of that draft.\<close>

definition emittedStatus :: "ScanOutcome \<times> Scanner \<Rightarrow> ScanStatus option" where
  "emittedStatus r = (case emittedDraft r of None \<Rightarrow> None | Some d \<Rightarrow> Some (status d))"

text \<open>
  The scheduled minute of an \<open>HH:mm\<close> entry, read off its four digits: what the data
  model means by a time of day. \<open>targetMinutes\<close>, the scanner's own reading, is compared
  with it below.
\<close>

definition isDigit :: "char \<Rightarrow> bool" where
  "isDigit c = (digitVal c \<noteq> None)"

fun isHHmm :: "string \<Rightarrow> bool" where
  "isHHmm [h1, h2, c, m1, m2] =
     (isDigit h1 \<and> isDigit h2 \<and> c = CHR '':'' \<and> isDigit m1 \<and> isDigit m2)"
| "isHHmm _ = False"

fun minuteOfDay :: "string \<Rightarrow> int" where
  "minuteOfDay [h1, h2, c, m1, m2] =
     int ((10 * the (digitVal h1) + the (digitVal h2)) * 60 +
          (10 * the (digitVal m1) + the (digitVal m2)))"
| "minuteOfDay _ = 0"

text \<open>
  The text of a whole number in a template literal (decimal digits, a minus sign before
  a negative one), for the worked examples: every number they render is whole. The
  general statements hold for any rendering \<open>numText\<close>.
\<close>

fun natText :: "nat \<Rightarrow> string" where
  "natText n =
     (if n < 10 then [char_of (48 + n)]
      else natText (n div 10) @ [char_of (48 + n mod 10)])"

definition wholeText :: "real \<Rightarrow> string" where
  "wholeText x =
     (if \<lfloor>x\<rfloor> < 0 then CHR ''-'' # natText (nat (- \<lfloor>x\<rfloor>)) else natText (nat \<lfloor>x\<rfloor>))"

text \<open>The built-in registries of App.tsx (lines 10 to 34).\<close>

definition DEFAULT_CHECKPOINTS :: "Checkpoint list" where
  "DEFAULT_CHECKPOINTS =
     [\<lparr>cp_id = ''cp-001'', cp_name = ''Main Entrance Gate'',
       location = \<lparr>latitude = 13.7563, longitude = 100.5018, accuracy = None\<rparr>,
       allowedRadiusMeters = 100,
       schedule = Some \<lparr>type = FIXED_TIME,
                         fixedTimes = Some [''08:00'', ''12:00'', ''16:00'', ''20:00''],
                         intervalMinutes = None, toleranceMinutes = Some 10\<rparr>\<rparr>,
      \<lparr>cp_id = ''cp-002'', cp_name = ''Server Room B2'',
       location = \<lparr>latitude = 13.7565, longitude = 100.5020, accuracy = None\<rparr>,
       allowedRadiusMeters = 50,
       schedule = Some \<lparr>type = INTERVAL, fixedTimes = None,
                         intervalMinutes = Some 60, toleranceMinutes = None\<rparr>\<rparr>]"

definition DEFAULT_OFFICERS :: "User list" where
  "DEFAULT_OFFICERS =
     [\<lparr>user_id = ''OFF-001'', user_name = ''Somsak Jaidee'', role = OFFICER\<rparr>,
      \<lparr>user_id = ''OFF-002'', user_name = ''Mana Meemark'', role = OFFICER\<rparr>]"

text \<open>
  A checkpoint on the equator at the prime meridian with a 50 m geofence, and readings
  at the checkpoint itself and on the far side of the Earth, where the distance has a
  closed form.
\<close>

definition equatorCheckpoint :: "ScheduleConfig option \<Rightarrow> Checkpoint" where
  "equatorCheckpoint sched =
     \<lparr>cp_id = ''cp-eq'', cp_name = ''Equator Post'',
      location = \<lparr>latitude = 0, longitude = 0, accuracy = None\<rparr>,
      allowedRadiusMeters = 50, schedule = sched\<rparr>"

definition eightOClock :: "real option \<Rightarrow> ScheduleConfig" where
  "eightOClock tol =
     \<lparr>type = FIXED_TIME, fixedTimes = Some [''08:00''], intervalMinutes = None,
      toleranceMinutes = tol\<rparr>"

definition readingAt :: "real \<Rightarrow> real \<Rightarrow> real option \<Rightarrow> int \<Rightarrow> int \<Rightarrow> Env" where
  "readingAt lat lon acc h m =
     \<lparr>position = Resolved \<lparr>latitude = lat, longitude = lon, accuracy = acc\<rparr>,
      newDate = \<lparr>getHours = h, getMinutes = m\<rparr>,
      dateNowId = 1700000000000, dateNowTimestamp = 1700000000000, mounted = True\<rparr>"

definition idleScanner :: Scanner where
  "idleScanner =
     \<lparr>processing = False, gpsLoading = False, hasAutoScanned = False, pendingLog = None,
      noteText = [], hasPhoto = False, selectedOfficerId = [], currentAccuracy = None\<rparr>"

text \<open>
  A draft waiting for confirmation, an older stored record, and an application state
  holding given logs.
\<close>

definition exampleDraft :: ScanLog where
  "exampleDraft =
     \<lparr>log_id = ''1700000000000'', checkpointId = ''cp-001'',
      checkpointName = ''Main Entrance Gate'', officerId = [], timestamp = 1700000000000,
      status = VALID, log_note = Some ''Routine Check: OK'',
      userLocation = Some \<lparr>latitude = 13.7563, longitude = 100.5018, accuracy = Some 12\<rparr>,
      distanceFromTarget = Some 0, evidencePhotoUrl = None\<rparr>"

definition olderLog :: ScanLog where
  "olderLog =
     exampleDraft\<lparr>log_id := ''1699999990000'', officerId := ''Mana Meemark (OFF-002)'',
                  timestamp := 1699999990000\<rparr>"

definition awaitingConfirmation :: "string \<Rightarrow> Scanner" where
  "awaitingConfirmation officer =
     idleScanner\<lparr>pendingLog := Some exampleDraft, noteText := ''Routine Check: OK'',
                 selectedOfficerId := officer\<rparr>"

definition exampleApp :: "ScanLog list \<Rightarrow> App" where
  "exampleApp ls =
     \<lparr>currentView = scanner, logs = ls, initialScanId = None, isSyncing = False,
      lastSyncTime = None, checkpoints = DEFAULT_CHECKPOINTS, officers = DEFAULT_OFFICERS\<rparr>"

section \<open>Facts about the primitives\<close>

declare natText.simps [simp del]

lemmas example_defs =
  equatorCheckpoint_def readingAt_def eightOClock_def idleScanner_def timeCheck_def orElse_def
  withinTolerance_def targetMinutes_def Number_def digitVal_def

lemma some_iff: "some P xs \<longleftrightarrow> (\<exists>x \<in> set xs. P x)"
  by (induction xs) auto

lemma digit_not_colon: "isDigit c \<Longrightarrow> c \<noteq> CHR '':''"
  by (auto simp: isDigit_def digitVal_def)

text \<open>On an \<open>HH:mm\<close> entry the scanner reads the scheduled minute of the day.\<close>

lemma targetMinutes_HHmm:
  assumes "isHHmm t"
  shows "targetMinutes t = Some (minuteOfDay t)"
proof -
  obtain h1 h2 c m1 m2 where t: "t = [h1, h2, c, m1, m2]"
    using assms by (cases t rule: isHHmm.cases) auto
  have d: "isDigit h1" "isDigit h2" "c = CHR '':''" "isDigit m1" "isDigit m2"
    using assms by (simp_all add: t)
  then obtain a b x y where v: "digitVal h1 = Some a" "digitVal h2 = Some b"
      "digitVal m1 = Some x" "digitVal m2 = Some y"
    by (auto simp: isDigit_def)
  show ?thesis
    using d digit_not_colon [OF d(1)] digit_not_colon [OF d(2)] digit_not_colon [OF d(4)]
      digit_not_colon [OF d(5)] v
    by (simp add: t targetMinutes_def Number_def)
qed

section \<open>The distance at the places of the worked examples\<close>

text \<open>Two readings at the same latitude and longitude are 0 m apart, whatever their accuracy.\<close>

lemma calculateDistance_at:
  "latitude A = latitude B \<Longrightarrow> longitude A = longitude B \<Longrightarrow> calculateDistance A B = 0"
  by (simp add: calculateDistance_def haversine_a_def Math_atan2_def)

text \<open>Half the way round the equator is \<open>6371000 * \<pi>\<close> metres.\<close>

lemma calculateDistance_far:
  "calculateDistance \<lparr>latitude = 0, longitude = 180, accuracy = acc\<rparr>
     \<lparr>latitude = 0, longitude = 0, accuracy = acc'\<rparr> = 6371000 * pi"
  by (simp add: calculateDistance_def haversine_a_def Math_atan2_def)

lemma calculateDistance_far_gt:
  "calculateDistance \<lparr>latitude = 0, longitude = 180, accuracy = acc\<rparr>
     \<lparr>latitude = 0, longitude = 0, accuracy = acc'\<rparr> > 50"
proof -
  have "(50::real) < 6371000 * 2" by simp
  also have "\<dots> \<le> 6371000 * pi" using pi_ge_two by simp
  finally show ?thesis by (simp add: calculateDistance_far)
qed

section \<open>Scheduled times\<close>

text \<open>
  C4. For the FIXED_TIME schedule with fixedTimes ["08:00"] and toleranceMinutes 10, the
  time check passes at 07:51, fails at 07:49, passes at 08:10 and fails at 08:11: the
  window includes the minute at exactly the tolerance, on both sides.
\<close>

theorem fixed_time_boundary:
  "fst (timeCheck numText
          (Some \<lparr>type = FIXED_TIME, fixedTimes = Some [''08:00''], intervalMinutes = None,
                 toleranceMinutes = Some 10\<rparr>) \<lparr>getHours = 7, getMinutes = 51\<rparr>) = Time_VALID
   \<and> fst (timeCheck numText
          (Some \<lparr>type = FIXED_TIME, fixedTimes = Some [''08:00''], intervalMinutes = None,
                 toleranceMinutes = Some 10\<rparr>) \<lparr>getHours = 7, getMinutes = 49\<rparr>) = Time_INVALID_TIME
   \<and> fst (timeCheck numText
          (Some \<lparr>type = FIXED_TIME, fixedTimes = Some [''08:00''], intervalMinutes = None,
                 toleranceMinutes = Some 10\<rparr>) \<lparr>getHours = 8, getMinutes = 10\<rparr>) = Time_VALID
   \<and> fst (timeCheck numText
          (Some \<lparr>type = FIXED_TIME, fixedTimes = Some [''08:00''], intervalMinutes = None,
                 toleranceMinutes = Some 10\<rparr>) \<lparr>getHours = 8, getMinutes = 11\<rparr>) = Time_INVALID_TIME"
  by (simp add: timeCheck_def orElse_def withinTolerance_def targetMinutes_def Number_def
      digitVal_def)

text \<open>
  C5, at its failing input. A configured tolerance of 0 is falsy, so
  \<open>toleranceMinutes || 10\<close> takes the default: with the single entry 08:00 and
  tolerance 0, the time check passes at 08:05, five minutes from the only entry.
\<close>

theorem zero_tolerance_widens_to_ten:
  "isHHmm ''08:00'' \<and> minuteOfDay ''08:00'' = 480
   \<and> \<not> real_of_int \<bar>(8 * 60 + 5) - minuteOfDay ''08:00''\<bar> \<le> 0
   \<and> fst (timeCheck numText (Some (eightOClock (Some 0))) \<lparr>getHours = 8, getMinutes = 5\<rparr>)
       = Time_VALID"
  by (simp add: example_defs isDigit_def)

text \<open>
  What the time check does decide: with a configured tolerance other than 0 and entries
  in \<open>HH:mm\<close> form, it passes exactly when some entry lies within the tolerance of the
  current minute of the day; with no tolerance, or the tolerance 0, the window is ten
  minutes.
\<close>

lemma fixed_time_window:
  assumes "type sc = FIXED_TIME"
      and "fixedTimes sc = Some fts"
      and "toleranceMinutes sc = Some tol"
      and "tol \<noteq> 0"
      and "\<forall>t \<in> set fts. isHHmm t"
  shows "fst (timeCheck numText (Some sc) now) = Time_VALID \<longleftrightarrow>
           (\<exists>t \<in> set fts.
              real_of_int \<bar>(getHours now * 60 + getMinutes now) - minuteOfDay t\<bar> \<le> tol)"
  using assms
  by (auto simp: timeCheck_def Let_def orElse_def some_iff withinTolerance_def
      targetMinutes_HHmm)

lemma fixed_time_window_default:
  assumes "type sc = FIXED_TIME"
      and "fixedTimes sc = Some fts"
      and "toleranceMinutes sc = None \<or> toleranceMinutes sc = Some 0"
      and "\<forall>t \<in> set fts. isHHmm t"
  shows "fst (timeCheck numText (Some sc) now) = Time_VALID \<longleftrightarrow>
           (\<exists>t \<in> set fts.
              real_of_int \<bar>(getHours now * 60 + getMinutes now) - minuteOfDay t\<bar> \<le> 10)"
  using assms
  by (auto simp: timeCheck_def Let_def orElse_def some_iff withinTolerance_def
      targetMinutes_HHmm)

section \<open>The verdict of a scan\<close>

text \<open>
  A run emits a draft exactly when the checkpoint is registered, the position
  resolved and the component is still mounted; the draft's status is then the outcome of
  the priority chain.
\<close>

lemma draft_status:
  assumes "find_js (\<lambda>c. cp_id c = cid) cps = Some cp"
      and "position env = Resolved loc"
      and "mounted env"
  shows "emittedStatus (handleSimulatedScan numText cps cid env s) =
           Some (if fst (timeCheck numText (schedule cp) (newDate env)) = Time_INVALID_TIME
                 then INVALID_TIME
                 else if orElse (accuracy loc) 0 > 100 then VALID
                 else if calculateDistance loc (location cp) \<le> allowedRadiusMeters cp then VALID
                 else INVALID_LOCATION)"
  using assms
  by (simp add: handleSimulatedScan_def emittedStatus_def emittedDraft_def decideStatus_def
      Let_def split: prod.splits)

lemma draft_pending:
  assumes "emittedDraft (handleSimulatedScan numText cps cid env s) = Some d"
  shows "pendingLog (snd (handleSimulatedScan numText cps cid env s)) = Some d
         \<and> selectedOfficerId (snd (handleSimulatedScan numText cps cid env s)) = []
         \<and> officerId d = []"
  using assms
  by (auto simp: handleSimulatedScan_def emittedDraft_def scanFailed_def Let_def
      split: option.splits Position.splits prod.splits if_splits)

lemma draft_only_when:
  assumes "emittedDraft (handleSimulatedScan numText cps cid env s) = Some d"
  shows "\<exists>cp loc. find_js (\<lambda>c. cp_id c = cid) cps = Some cp \<and> position env = Resolved loc
           \<and> mounted env"
  using assms
  by (auto simp: handleSimulatedScan_def emittedDraft_def scanFailed_def Let_def
      split: option.splits Position.splits prod.splits if_splits)

text \<open>
  C1. When the time check fails for the resolved checkpoint, the emitted draft has
  status INVALID_TIME, whatever the distance and whatever the accuracy.
\<close>

theorem schedule_failure_takes_precedence:
  assumes "find_js (\<lambda>c. cp_id c = cid) cps = Some cp"
      and "position env = Resolved loc"
      and "mounted env"
      and "fst (timeCheck numText (schedule cp) (newDate env)) = Time_INVALID_TIME"
  shows "emittedStatus (handleSimulatedScan numText cps cid env s) = Some INVALID_TIME"
  using assms by (simp add: draft_status)

text \<open>
  At 07:49, with the officer on the spot (distance 0, inside the 50 m geofence) and an
  accuracy of 150 m (over the threshold), the draft is INVALID_TIME.
\<close>

theorem schedule_failure_takes_precedence_witness:
  "calculateDistance \<lparr>latitude = 0, longitude = 0, accuracy = Some 150\<rparr>
       (location (equatorCheckpoint (Some (eightOClock (Some 10)))))
     \<le> allowedRadiusMeters (equatorCheckpoint (Some (eightOClock (Some 10))))
   \<and> emittedStatus
        (handleSimulatedScan wholeText [equatorCheckpoint (Some (eightOClock (Some 10)))]
           ''cp-eq'' (readingAt 0 0 (Some 150) 7 49) idleScanner) = Some INVALID_TIME"
  using schedule_failure_takes_precedence
      [where cid = "''cp-eq''" and cps = "[equatorCheckpoint (Some (eightOClock (Some 10)))]"
         and cp = "equatorCheckpoint (Some (eightOClock (Some 10)))"
         and env = "readingAt 0 0 (Some 150) 7 49"
         and loc = "\<lparr>latitude = 0, longitude = 0, accuracy = Some 150\<rparr>"
         and numText = wholeText and s = idleScanner]
  by (simp add: example_defs calculateDistance_at)

text \<open>
  C2. When the time check passes and the reported accuracy is above 100 m, the emitted
  draft is VALID, whatever the distance.
\<close>

theorem weak_gps_trusts_qr:
  assumes "find_js (\<lambda>c. cp_id c = cid) cps = Some cp"
      and "position env = Resolved loc"
      and "mounted env"
      and "fst (timeCheck numText (schedule cp) (newDate env)) = Time_VALID"
      and "accuracy loc = Some a"
      and "a > 100"
  shows "emittedStatus (handleSimulatedScan numText cps cid env s) = Some VALID"
  using assms by (simp add: draft_status orElse_def)

text \<open>
  At 08:05, half the way round the Earth from a checkpoint with a 50 m geofence, an
  accuracy of 150 m still gives VALID.
\<close>

theorem weak_gps_trusts_qr_witness:
  "calculateDistance \<lparr>latitude = 0, longitude = 180, accuracy = Some 150\<rparr>
       (location (equatorCheckpoint (Some (eightOClock (Some 10)))))
     > allowedRadiusMeters (equatorCheckpoint (Some (eightOClock (Some 10))))
   \<and> emittedStatus
        (handleSimulatedScan wholeText [equatorCheckpoint (Some (eightOClock (Some 10)))]
           ''cp-eq'' (readingAt 0 180 (Some 150) 8 5) idleScanner) = Some VALID"
  using weak_gps_trusts_qr
      [where cid = "''cp-eq''" and cps = "[equatorCheckpoint (Some (eightOClock (Some 10)))]"
         and cp = "equatorCheckpoint (Some (eightOClock (Some 10)))"
         and env = "readingAt 0 180 (Some 150) 8 5"
         and loc = "\<lparr>latitude = 0, longitude = 180, accuracy = Some 150\<rparr>"
         and a = 150 and numText = wholeText and s = idleScanner]
  by (simp add: example_defs calculateDistance_far_gt)

text \<open>
  C3. When the time check passes and the reported accuracy is at most 100 m, the
  emitted draft is VALID if the distance is at most the allowed radius (the boundary
  included) and INVALID_LOCATION if it is greater.
\<close>

theorem geofence_decides:
  assumes "find_js (\<lambda>c. cp_id c = cid) cps = Some cp"
      and "position env = Resolved loc"
      and "mounted env"
      and "fst (timeCheck numText (schedule cp) (newDate env)) = Time_VALID"
      and "accuracy loc = Some a"
      and "a \<le> 100"
  shows "emittedStatus (handleSimulatedScan numText cps cid env s) =
           Some (if calculateDistance loc (location cp) \<le> allowedRadiusMeters cp
                 then VALID else INVALID_LOCATION)"
  using assms by (simp add: draft_status orElse_def)

text \<open>
  With an accuracy of 20 m: far outside the 50 m geofence the draft is INVALID_LOCATION,
  at the checkpoint it is VALID. With an accuracy of exactly 100 m and a radius equal to
  the distance, \<open>6371000 * \<pi>\<close>, it is VALID.
\<close>

theorem geofence_decides_witness:
  "emittedStatus
     (handleSimulatedScan wholeText [equatorCheckpoint (Some (eightOClock (Some 10)))]
        ''cp-eq'' (readingAt 0 180 (Some 20) 8 5) idleScanner) = Some INVALID_LOCATION
   \<and> emittedStatus
     (handleSimulatedScan wholeText [equatorCheckpoint (Some (eightOClock (Some 10)))]
        ''cp-eq'' (readingAt 0 0 (Some 20) 8 5) idleScanner) = Some VALID
   \<and> emittedStatus
     (handleSimulatedScan wholeText
        [(equatorCheckpoint None)\<lparr>allowedRadiusMeters := 6371000 * pi\<rparr>]
        ''cp-eq'' (readingAt 0 180 (Some 100) 8 5) idleScanner) = Some VALID"
  using geofence_decides
      [where cid = "''cp-eq''" and cps = "[equatorCheckpoint (Some (eightOClock (Some 10)))]"
         and cp = "equatorCheckpoint (Some (eightOClock (Some 10)))"
         and env = "readingAt 0 180 (Some 20) 8 5"
         and loc = "\<lparr>latitude = 0, longitude = 180, accuracy = Some 20\<rparr>"
         and a = 20 and numText = wholeText and s = idleScanner]
    geofence_decides
      [where cid = "''cp-eq''" and cps = "[equatorCheckpoint (Some (eightOClock (Some 10)))]"
         and cp = "equatorCheckpoint (Some (eightOClock (Some 10)))"
         and env = "readingAt 0 0 (Some 20) 8 5"
         and loc = "\<lparr>latitude = 0, longitude = 0, accuracy = Some 20\<rparr>"
         and a = 20 and numText = wholeText and s = idleScanner]
    geofence_decides
      [where cid = "''cp-eq''"
         and cps = "[(equatorCheckpoint None)\<lparr>allowedRadiusMeters := 6371000 * pi\<rparr>]"
         and cp = "(equatorCheckpoint None)\<lparr>allowedRadiusMeters := 6371000 * pi\<rparr>"
         and env = "readingAt 0 180 (Some 100) 8 5"
         and loc = "\<lparr>latitude = 0, longitude = 180, accuracy = Some 100\<rparr>"
         and a = 100 and numText = wholeText and s = idleScanner]
    calculateDistance_far_gt [of "Some 20" None]
  by (simp add: example_defs calculateDistance_far calculateDistance_at)

text \<open>
  C6. For a checkpoint with no schedule, or one of type NONE or INTERVAL, the time check
  passes and the emitted draft is VALID or INVALID_LOCATION, never INVALID_TIME.
\<close>

theorem unenforced_schedules_pass:
  assumes "find_js (\<lambda>c. cp_id c = cid) cps = Some cp"
      and "position env = Resolved loc"
      and "mounted env"
      and "schedule cp = None \<or>
           (\<exists>sc. schedule cp = Some sc \<and> (type sc = NONE \<or> type sc = INTERVAL))"
  shows "fst (timeCheck numText (schedule cp) (newDate env)) = Time_VALID
         \<and> (emittedStatus (handleSimulatedScan numText cps cid env s) = Some VALID
            \<or> emittedStatus (handleSimulatedScan numText cps cid env s) = Some INVALID_LOCATION)"
proof -
  have t: "fst (timeCheck numText (schedule cp) (newDate env)) = Time_VALID"
    using assms(4) by (auto simp: timeCheck_def)
  show ?thesis
    using assms(1-3) t by (simp add: draft_status)
qed

text \<open>
  The built-in checkpoint cp-002 has an INTERVAL schedule of 60 minutes: a scan at its
  own coordinates at 03:00 passes the time check and is VALID.
\<close>

theorem unenforced_schedules_pass_witness:
  "fst (timeCheck wholeText (schedule (DEFAULT_CHECKPOINTS ! 1))
          (newDate (readingAt 13.7565 100.5020 (Some 20) 3 0))) = Time_VALID
   \<and> emittedStatus
        (handleSimulatedScan wholeText DEFAULT_CHECKPOINTS ''cp-002''
           (readingAt 13.7565 100.5020 (Some 20) 3 0) idleScanner) = Some VALID"
  using unenforced_schedules_pass
      [where cid = "''cp-002''" and cps = DEFAULT_CHECKPOINTS
         and cp = "DEFAULT_CHECKPOINTS ! 1"
         and env = "readingAt 13.7565 100.5020 (Some 20) 3 0"
         and loc = "\<lparr>latitude = 13.7565, longitude = 100.5020, accuracy = Some 20\<rparr>"
         and numText = wholeText and s = idleScanner]
    draft_status
      [where cid = "''cp-002''" and cps = DEFAULT_CHECKPOINTS
         and cp = "DEFAULT_CHECKPOINTS ! 1"
         and env = "readingAt 13.7565 100.5020 (Some 20) 3 0"
         and loc = "\<lparr>latitude = 13.7565, longitude = 100.5020, accuracy = Some 20\<rparr>"
         and numText = wholeText and s = idleScanner]
  by (simp add: DEFAULT_CHECKPOINTS_def readingAt_def orElse_def calculateDistance_at)

text \<open>
  C10. A reading with no accuracy is treated as one of accuracy 0: it is never
  sensor-degraded, so the time check and the geofence alone decide the status, which is
  the status the same reading with accuracy 0 gets.
\<close>

theorem missing_accuracy_is_zero:
  assumes "find_js (\<lambda>c. cp_id c = cid) cps = Some cp"
      and "position env = Resolved loc"
      and "mounted env"
      and "accuracy loc = None"
  shows "emittedStatus (handleSimulatedScan numText cps cid env s) =
           Some (if fst (timeCheck numText (schedule cp) (newDate env)) = Time_INVALID_TIME
                 then INVALID_TIME
                 else if calculateDistance loc (location cp) \<le> allowedRadiusMeters cp then VALID
                 else INVALID_LOCATION)
         \<and> emittedStatus (handleSimulatedScan numText cps cid env s) =
           emittedStatus
             (handleSimulatedScan numText cps cid
                (env\<lparr>position := Resolved (loc\<lparr>accuracy := Some 0\<rparr>)\<rparr>) s)"
proof -
  have d: "calculateDistance (loc\<lparr>accuracy := Some 0\<rparr>) (location cp) =
           calculateDistance loc (location cp)"
    by (simp add: calculateDistance_def haversine_a_def)
  have "emittedStatus
          (handleSimulatedScan numText cps cid
             (env\<lparr>position := Resolved (loc\<lparr>accuracy := Some 0\<rparr>)\<rparr>) s) =
        Some (if fst (timeCheck numText (schedule cp) (newDate env)) = Time_INVALID_TIME
              then INVALID_TIME
              else if calculateDistance loc (location cp) \<le> allowedRadiusMeters cp then VALID
              else INVALID_LOCATION)"
    using assms(1,3)
    by (simp add: draft_status [where cp = cp and loc = "loc\<lparr>accuracy := Some 0\<rparr>"] d
        orElse_def)
  moreover
  have "emittedStatus (handleSimulatedScan numText cps cid env s) =
        Some (if fst (timeCheck numText (schedule cp) (newDate env)) = Time_INVALID_TIME
              then INVALID_TIME
              else if calculateDistance loc (location cp) \<le> allowedRadiusMeters cp then VALID
              else INVALID_LOCATION)"
    using assms by (simp add: draft_status orElse_def)
  ultimately show ?thesis by simp
qed

text \<open>
  Far outside the geofence, a reading without accuracy gives INVALID_LOCATION, as the
  reading with accuracy 0 does: the weak-signal override does not fire.
\<close>

theorem missing_accuracy_is_zero_witness:
  "emittedStatus
     (handleSimulatedScan wholeText [equatorCheckpoint None]
        ''cp-eq'' (readingAt 0 180 None 8 5) idleScanner) = Some INVALID_LOCATION
   \<and> emittedStatus
     (handleSimulatedScan wholeText [equatorCheckpoint None]
        ''cp-eq'' (readingAt 0 180 (Some 0) 8 5) idleScanner) = Some INVALID_LOCATION"
  using missing_accuracy_is_zero
      [where cid = "''cp-eq''" and cps = "[equatorCheckpoint None]"
         and cp = "equatorCheckpoint None"
         and env = "readingAt 0 180 None 8 5"
         and loc = "\<lparr>latitude = 0, longitude = 180, accuracy = None\<rparr>"
         and numText = wholeText and s = idleScanner]
    calculateDistance_far_gt [of None None]
  by (auto simp: example_defs)

section \<open>Confirmation\<close>

text \<open>
  C8. With a draft pending, a confirmation with no officer selected is refused with an
  alert and leaves the application state, and so the stored logs, as they were; with an
  officer selected it appends exactly one record after the stored ones, which carries the
  draft's identity, status, timestamp, location and distance.
\<close>

theorem confirmation_needs_an_officer:
  assumes "pendingLog s = Some p"
  shows "(selectedOfficerId s = [] \<longrightarrow>
            handleFinalSubmit handleScanComplete offs s app =
              (Some ''Please select your name/ID from the list.'', app))
         \<and> (selectedOfficerId s \<noteq> [] \<longrightarrow>
            (\<exists>r. logs (snd (handleFinalSubmit handleScanComplete offs s app)) = logs app @ [r]
                 \<and> log_id r = log_id p \<and> checkpointId r = checkpointId p
                 \<and> checkpointName r = checkpointName p \<and> timestamp r = timestamp p
                 \<and> status r = status p \<and> userLocation r = userLocation p
                 \<and> distanceFromTarget r = distanceFromTarget p))"
  using assms
  by (simp add: handleFinalSubmit_def handleScanComplete_def Let_def)

text \<open>
  With one older record stored: no selection leaves the state as it is; the selection
  OFF-001 appends the draft, signed with the officer's name and id, after the older record.
\<close>

theorem confirmation_needs_an_officer_witness:
  "handleFinalSubmit handleScanComplete DEFAULT_OFFICERS (awaitingConfirmation [])
       (exampleApp [olderLog])
     = (Some ''Please select your name/ID from the list.'', exampleApp [olderLog])
   \<and> logs (snd (handleFinalSubmit handleScanComplete DEFAULT_OFFICERS
                   (awaitingConfirmation ''OFF-001'') (exampleApp [olderLog])))
     = [olderLog,
        exampleDraft\<lparr>officerId := ''Somsak Jaidee (OFF-001)'',
                     log_note := Some ''Routine Check: OK''\<rparr>]"
  using confirmation_needs_an_officer
      [where s = "awaitingConfirmation []" and p = exampleDraft and offs = DEFAULT_OFFICERS
         and app = "exampleApp [olderLog]"]
    confirmation_needs_an_officer
      [where s = "awaitingConfirmation ''OFF-001''" and p = exampleDraft
         and offs = DEFAULT_OFFICERS and app = "exampleApp [olderLog]"]
  by (simp add: awaitingConfirmation_def idleScanner_def exampleApp_def DEFAULT_OFFICERS_def
      handleFinalSubmit_def handleScanComplete_def exampleDraft_def Let_def)

text \<open>With no draft pending the handler does nothing.\<close>

lemma submit_without_draft:
  "pendingLog s = None \<Longrightarrow> handleFinalSubmit onScanComplete offs s app = (None, app)"
  by (simp add: handleFinalSubmit_def)

section \<open>Pulling from the sheet\<close>

text \<open>
  C9. When a pull is made (a script URL is configured) and the fetch resolves, each of
  the three collections is replaced by the remote one if that is not empty, and left as
  it is if the remote one is empty, each independently of the other two.
\<close>

theorem pull_keeps_or_replaces:
  assumes "scriptUrl \<noteq> []"
  shows "logs (loadCloudData scriptUrl (Some cloudData) syncDate app) =
           (if cloud_logs cloudData = [] then logs app else cloud_logs cloudData)
         \<and> officers (loadCloudData scriptUrl (Some cloudData) syncDate app) =
           (if cloud_officers cloudData = [] then officers app else cloud_officers cloudData)
         \<and> checkpoints (loadCloudData scriptUrl (Some cloudData) syncDate app) =
           (if cloud_checkpoints cloudData = [] then checkpoints app
            else cloud_checkpoints cloudData)"
  using assms by (simp add: loadCloudData_def Let_def)

text \<open>
  A pull that returns no logs and no checkpoints but one officer keeps the stored log and
  the checkpoints, and replaces the officers.
\<close>

theorem pull_keeps_or_replaces_witness:
  "logs (loadCloudData ''https://sheet.example/exec''
           (Some \<lparr>cloud_logs = [],
                  cloud_officers = [\<lparr>user_id = ''OFF-009'', user_name = ''Nok'', role = OFFICER\<rparr>],
                  cloud_checkpoints = []\<rparr>)
           1700000002000 (exampleApp [olderLog])) = [olderLog]
   \<and> officers (loadCloudData ''https://sheet.example/exec''
           (Some \<lparr>cloud_logs = [],
                  cloud_officers = [\<lparr>user_id = ''OFF-009'', user_name = ''Nok'', role = OFFICER\<rparr>],
                  cloud_checkpoints = []\<rparr>)
           1700000002000 (exampleApp [olderLog]))
       = [\<lparr>user_id = ''OFF-009'', user_name = ''Nok'', role = OFFICER\<rparr>]
   \<and> checkpoints (loadCloudData ''https://sheet.example/exec''
           (Some \<lparr>cloud_logs = [],
                  cloud_officers = [\<lparr>user_id = ''OFF-009'', user_name = ''Nok'', role = OFFICER\<rparr>],
                  cloud_checkpoints = []\<rparr>)
           1700000002000 (exampleApp [olderLog])) = DEFAULT_CHECKPOINTS"
  using pull_keeps_or_replaces
      [where scriptUrl = "''https://sheet.example/exec''"
         and cloudData = "\<lparr>cloud_logs = [],
                  cloud_officers = [\<lparr>user_id = ''OFF-009'', user_name = ''Nok'', role = OFFICER\<rparr>],
                  cloud_checkpoints = []\<rparr>"
         and syncDate = 1700000002000 and app = "exampleApp [olderLog]"]
  by (simp add: exampleApp_def)

text \<open>Without a script URL no pull is made, and a rejected fetch changes no collection.\<close>

lemma pull_without_url: "loadCloudData [] fetched syncDate app = app"
  by (simp add: loadCloudData_def)

lemma pull_rejected:
  "logs (loadCloudData scriptUrl None syncDate app) = logs app
   \<and> officers (loadCloudData scriptUrl None syncDate app) = officers app
   \<and> checkpoints (loadCloudData scriptUrl None syncDate app) = checkpoints app"
  by (simp add: loadCloudData_def Let_def)

end
